theory Spec2Isabelle
  imports Main
begin

section \<open>Python values and strings\<close>

text \<open>
  The program is the single file \<^verbatim>\<open>app.py\<close>. Its only data are Python strings and
  \<^verbatim>\<open>None\<close>. A Python \<^verbatim>\<open>str\<close> is a sequence of code points; it is modelled as a
  \<^typ>\<open>string\<close> whose characters are the code points below 256, so that \<^term>\<open>length\<close>
  counts what Python's \<^verbatim>\<open>len\<close> counts. The character classes below are Python's on
  that range.
\<close>

datatype pyval = PyNone | PyStr string

text \<open>Truthiness, as tested by \<^verbatim>\<open>if error:\<close> and \<^verbatim>\<open>if not api_key:\<close>.\<close>

fun truthy :: "pyval \<Rightarrow> bool" where
  "truthy PyNone = False"
| "truthy (PyStr s) = (s \<noteq> [])"

text \<open>Exceptions, with the text that \<^verbatim>\<open>str(e)\<close> gives in the handlers' messages.\<close>

datatype exn = NameError string | KeyError string | Raised string

definition codepoint :: "char \<Rightarrow> nat" where
  "codepoint c = of_char c"

definition isspace :: "char \<Rightarrow> bool" where
  "isspace c = ((9 \<le> codepoint c \<and> codepoint c \<le> 13) \<or> (28 \<le> codepoint c \<and> codepoint c \<le> 32)
                \<or> codepoint c = 133 \<or> codepoint c = 160)"

definition isalnum :: "char \<Rightarrow> bool" where
  "isalnum c = ((48 \<le> codepoint c \<and> codepoint c \<le> 57) \<or> (65 \<le> codepoint c \<and> codepoint c \<le> 90)
                \<or> (97 \<le> codepoint c \<and> codepoint c \<le> 122)
                \<or> codepoint c = 170 \<or> codepoint c = 178 \<or> codepoint c = 179 \<or> codepoint c = 181
                \<or> codepoint c = 185 \<or> codepoint c = 186 \<or> (188 \<le> codepoint c \<and> codepoint c \<le> 190)
                \<or> (192 \<le> codepoint c \<and> codepoint c \<le> 214) \<or> (216 \<le> codepoint c \<and> codepoint c \<le> 246)
                \<or> (248 \<le> codepoint c \<and> codepoint c \<le> 255))"

text \<open>\<^verbatim>\<open>s.strip()\<close>: leading and trailing whitespace removed.\<close>

definition strip :: "string \<Rightarrow> string" where
  "strip s = rev (dropWhile isspace (rev (dropWhile isspace s)))"

definition startswith :: "string \<Rightarrow> string \<Rightarrow> bool" where
  "startswith s p = (take (length p) s = p)"

definition endswith :: "string \<Rightarrow> string \<Rightarrow> bool" where
  "endswith s p = (length p \<le> length s \<and> drop (length s - length p) s = p)"

text \<open>The slices \<^verbatim>\<open>s[n:]\<close> and \<^verbatim>\<open>s[:-n]\<close> for a literal \<open>n > 0\<close>; neither raises.\<close>

definition slice_from :: "nat \<Rightarrow> string \<Rightarrow> string" where
  "slice_from n s = drop n s"

definition slice_upto_neg :: "nat \<Rightarrow> string \<Rightarrow> string" where
  "slice_upto_neg n s = take (length s - n) s"

text \<open>\<^verbatim>\<open>sep.join(items)\<close>.\<close>

fun join :: "string \<Rightarrow> string list \<Rightarrow> string" where
  "join sep [] = []"
| "join sep [x] = x"
| "join sep (x # y # ys) = x @ sep @ join sep (y # ys)"

text \<open>\<^verbatim>\<open>s.lower()\<close>: on the modelled range only A-Z and the capital letters of
  Latin-1 change, each by 32.\<close>

definition lower_char :: "char \<Rightarrow> char" where
  "lower_char c = (if (65 \<le> codepoint c \<and> codepoint c \<le> 90) \<or> (192 \<le> codepoint c \<and> codepoint c \<le> 214)
                      \<or> (216 \<le> codepoint c \<and> codepoint c \<le> 222)
                   then char_of (codepoint c + 32) else c)"

definition lower :: "string \<Rightarrow> string" where
  "lower s = map lower_char s"

definition hex_digit :: "nat \<Rightarrow> char" where
  "hex_digit n = ''0123456789abcdef'' ! (n mod 16)"

definition hex2 :: "char \<Rightarrow> string" where
  "hex2 c = [hex_digit (codepoint c div 16), hex_digit (codepoint c)]"

text \<open>\<^verbatim>\<open>repr\<close> of a value, and of a tuple of values (used when a replacement field of an
  f-string is a tuple display).\<close>

definition repr_char :: "char \<Rightarrow> char \<Rightarrow> string" where
  "repr_char q c =
     (if c = q \<or> c = CHR 0x5C then [CHR 0x5C, c]
      else if c = CHR 0x09 then [CHR 0x5C, CHR ''t'']
      else if c = CHR 0x0A then [CHR 0x5C, CHR ''n'']
      else if c = CHR 0x0D then [CHR 0x5C, CHR ''r'']
      else if codepoint c < 32 \<or> (127 \<le> codepoint c \<and> codepoint c \<le> 160) \<or> codepoint c = 173
        then [CHR 0x5C, CHR ''x''] @ hex2 c
      else [c])"

fun py_repr :: "pyval \<Rightarrow> string" where
  "py_repr PyNone = ''None''"
| "py_repr (PyStr s) =
     (let q = (if CHR 0x27 \<in> set s \<and> CHR 0x22 \<notin> set s then CHR 0x22 else CHR 0x27)
      in [q] @ concat (map (repr_char q) s) @ [q])"

definition tuple_repr :: "pyval list \<Rightarrow> string" where
  "tuple_repr vs = ''('' @ join '', '' (map py_repr vs)
                     @ (if length vs = 1 then '','' else []) @ '')''"

text \<open>\<^verbatim>\<open>str(v)\<close>, which is what an f-string field without format specification shows.\<close>

fun py_str :: "pyval \<Rightarrow> string" where
  "py_str PyNone = ''None''"
| "py_str (PyStr s) = s"

fun exn_str :: "exn \<Rightarrow> string" where
  "exn_str (NameError n) = ''name '' @ [CHR 0x27] @ n @ [CHR 0x27] @ '' is not defined''"
| "exn_str (KeyError k) = py_repr (PyStr k)"
| "exn_str (Raised m) = m"

section \<open>\<^verbatim>\<open>json.dumps\<close>\<close>

text \<open>
  \<^verbatim>\<open>json.dumps\<close> with its defaults (\<^verbatim>\<open>ensure_ascii=True\<close>): the quote, the backslash and
  the five named control characters have two-character escapes, every other character
  outside space..tilde is written \<^verbatim>\<open>\u00XX\<close>, the rest is copied.
\<close>

definition json_escape :: "char \<Rightarrow> string" where
  "json_escape c =
     (if c = CHR 0x22 then [CHR 0x5C, CHR 0x22]
      else if c = CHR 0x5C then [CHR 0x5C, CHR 0x5C]
      else if c = CHR 0x0A then [CHR 0x5C, CHR ''n'']
      else if c = CHR 0x0D then [CHR 0x5C, CHR ''r'']
      else if c = CHR 0x09 then [CHR 0x5C, CHR ''t'']
      else if c = CHR 0x08 then [CHR 0x5C, CHR ''b'']
      else if c = CHR 0x0C then [CHR 0x5C, CHR ''f'']
      else if 32 \<le> codepoint c \<and> codepoint c \<le> 126 then [c]
      else [CHR 0x5C, CHR ''u'', CHR ''0'', CHR ''0''] @ hex2 c)"

fun json_dumps :: "pyval \<Rightarrow> string" where
  "json_dumps PyNone = ''null''"
| "json_dumps (PyStr s) = [CHR 0x22] @ concat (map json_escape s) @ [CHR 0x22]"

section \<open>f-strings\<close>

text \<open>
  An f-string is a sequence of literal text and replacement fields, evaluated from left
  to right. Every field of this program is a name or a comma-separated tuple of names.
  A name that is not bound raises \<^verbatim>\<open>NameError\<close>; a single name is shown by \<^verbatim>\<open>str\<close>,
  a tuple by its \<^verbatim>\<open>repr\<close>. In the literal text \<^verbatim>\<open>{{\<close> and \<^verbatim>\<open>}}\<close> stand for one brace.
\<close>

datatype fpart = Text string | Field "string list"

fun lookup_all :: "(string \<rightharpoonup> pyval) \<Rightarrow> string list \<Rightarrow> exn + pyval list" where
  "lookup_all scope [] = Inr []"
| "lookup_all scope (n # ns) =
     (case scope n of
        None \<Rightarrow> Inl (NameError n)
      | Some v \<Rightarrow> (case lookup_all scope ns of Inl e \<Rightarrow> Inl e | Inr vs \<Rightarrow> Inr (v # vs)))"

definition eval_field :: "(string \<rightharpoonup> pyval) \<Rightarrow> string list \<Rightarrow> exn + string" where
  "eval_field scope ns =
     (case lookup_all scope ns of
        Inl e \<Rightarrow> Inl e
      | Inr vs \<Rightarrow> Inr (case vs of [v] \<Rightarrow> py_str v | _ \<Rightarrow> tuple_repr vs))"

fun fstring :: "(string \<rightharpoonup> pyval) \<Rightarrow> fpart list \<Rightarrow> exn + string" where
  "fstring scope [] = Inr []"
| "fstring scope (Text t # ps) =
     (case fstring scope ps of Inl e \<Rightarrow> Inl e | Inr r \<Rightarrow> Inr (t @ r))"
| "fstring scope (Field ns # ps) =
     (case eval_field scope ns of
        Inl e \<Rightarrow> Inl e
      | Inr v \<Rightarrow> (case fstring scope ps of Inl e \<Rightarrow> Inl e | Inr r \<Rightarrow> Inr (v @ r)))"

section \<open>The two regular expressions\<close>

text \<open>
  \<^verbatim>\<open>re.search(r"(?<=v=)[^&#]+|(?<=be/)[^&#]+", youtube_url)\<close> tries the positions of
  the URL from left to right. At a position the pattern matches when the text before it
  ends with \<^verbatim>\<open>v=\<close> or with \<^verbatim>\<open>be/\<close> and the character at the position is neither
  \<^verbatim>\<open>&\<close> nor \<^verbatim>\<open>#\<close>; the match is the longest run of such characters (both
  alternatives give the same run). \<open>seen\<close> is the text before the position.
\<close>

definition id_char :: "char \<Rightarrow> bool" where
  "id_char c = (c \<noteq> CHR ''&'' \<and> c \<noteq> CHR ''#'')"

definition lookbehind :: "string \<Rightarrow> bool" where
  "lookbehind seen = (endswith seen ''v='' \<or> endswith seen ''be/'')"

fun re_search_from :: "string \<Rightarrow> string \<Rightarrow> string option" where
  "re_search_from seen [] = None"
| "re_search_from seen (c # rest) =
     (if lookbehind seen \<and> id_char c then Some (takeWhile id_char (c # rest))
      else re_search_from (seen @ [c]) rest)"

definition re_search_video_id :: "string \<Rightarrow> string option" where
  "re_search_video_id youtube_url = re_search_from [] youtube_url"

text \<open>
  \<^verbatim>\<open>re.sub(r'[\W_]+', '_', video_topic)\<close>: every maximal run of characters that are not
  word characters, or are the underscore, becomes one underscore. A word character is an
  alphanumeric character or the underscore, so the class is exactly the characters that
  are not alphanumeric.
\<close>

definition is_word :: "char \<Rightarrow> bool" where
  "is_word c = (isalnum c \<or> c = CHR ''_'')"

definition in_class :: "char \<Rightarrow> bool" where
  "in_class c = (if c = CHR ''_'' then True else \<not> is_word c)"

function re_sub_runs :: "string \<Rightarrow> string" where
  "re_sub_runs [] = []"
| "re_sub_runs (c # cs) =
     (if in_class c then CHR ''_'' # re_sub_runs (dropWhile in_class cs)
      else c # re_sub_runs cs)"
  by pat_completeness auto
termination
  by (relation "measure length") (auto simp: length_dropWhile_le less_Suc_eq_le)

section \<open>The backend functions\<close>

text \<open>
  The two external services are parameters. The transcript service takes a video
  identifier and returns a list of caption fragments or raises; a fragment is a dict of
  which only the key \<^verbatim>\<open>text\<close> is read. The generation service takes the credential, the
  model name and the prompt and returns the response text or raises (configuring the
  client, sending the prompt and reading \<^verbatim>\<open>response.text\<close> taken together). Each function
  returns, beside its result, the network calls it made.
\<close>

type_synonym fragment = "string \<rightharpoonup> string"

type_synonym transcript_service = "string \<Rightarrow> exn + fragment list"

type_synonym generation_service = "string \<Rightarrow> string \<Rightarrow> string \<Rightarrow> exn + string"

datatype net_call = TranscriptCall string | GenerateCall string string string

text \<open>The list comprehension \<^verbatim>\<open>[item['text'] for item in transcript_list]\<close>.\<close>

fun texts :: "fragment list \<Rightarrow> exn + string list" where
  "texts [] = Inr []"
| "texts (item # items) =
     (case item ''text'' of
        None \<Rightarrow> Inl (KeyError ''text'')
      | Some t \<Rightarrow> (case texts items of Inl e \<Rightarrow> Inl e | Inr ts \<Rightarrow> Inr (t # ts)))"

definition invalid_url_message :: string where
  "invalid_url_message =
     ''Error: Could not extract video ID from the URL. Please use a valid YouTube video link.''"

definition transcript_error_message :: "exn \<Rightarrow> string" where
  "transcript_error_message e =
     ''Error: Could not fetch transcript. The video might not have transcripts enabled, or the URL is incorrect. (Details: ''
     @ exn_str e @ '')''"

definition get_youtube_transcript ::
  "transcript_service \<Rightarrow> string \<Rightarrow> (pyval \<times> pyval) \<times> net_call list" where
  "get_youtube_transcript service youtube_url =
     (case re_search_video_id youtube_url of
        None \<Rightarrow> ((PyNone, PyStr invalid_url_message), [])
      | Some video_id \<Rightarrow>
          (case service video_id of
             Inl e \<Rightarrow> ((PyNone, PyStr (transcript_error_message e)), [TranscriptCall video_id])
           | Inr transcript_list \<Rightarrow>
               (case texts transcript_list of
                  Inl e \<Rightarrow>
                    ((PyNone, PyStr (transcript_error_message e)), [TranscriptCall video_id])
                | Inr ts \<Rightarrow>
                    ((PyStr (join '' '' ts), PyNone), [TranscriptCall video_id]))))"

definition prompt_template :: "fpart list" where
  "prompt_template =
   [Text (''\<newline>''
    @ ''### **System Instructions & Persona**\<newline>''
    @ ''You are an expert AI assistant specializing in academic content analysis for competitive examinations. Your specific persona is that of a **UPSC (Union Public Service Commission) Exam Analyst**.\<newline>''
    @ ''\<newline>''
    @ ''Your primary function is to process educational content and restructure it into a highly organized, hierarchical mind map format for efficient learning and revision. You are precise, factual, and strictly adhere to the provided source material to ensure accuracy, which is paramount for exam preparation.\<newline>''
    @ ''\<newline>''
    @ ''### **Workflow Goal**\<newline>''
    @ ''Your task is to analyze the provided `{youtube_transcript}` on the topic of `{video_topic}` and convert it into a logical mind map using Markdown syntax compatible with the `markmap` tool.\<newline>''
    @ ''\<newline>''
    @ ''### **Core Instructions & Constraints**\<newline>''
    @ ''1.  **Strict Source Adherence:** You **MUST** derive all information exclusively from the provided `{youtube_transcript}`. Do not introduce any external facts, figures, or concepts. Your role is to distill and structure the given information, not to supplement it. This is a strict rule to prevent factual inaccuracies (hallucinations).\<newline>''
    @ ''2.  **UPSC Relevance Filter:** Analyze the transcript through the lens of the UPSC Civil Services Examination syllabus. Prioritize and extract key information relevant to the exam.\<newline>''
    @ ''3.  **Logical Structuring:** Do not just list points. You must identify the main themes in the transcript and organize the extracted details hierarchically under these themes. The structure should flow logically from main ideas to supporting details.\<newline>''
    @ ''4.  **Conciseness:** Use clear and concise language. Summarize points effectively without losing their core meaning. Use bullet points for detailed breakdowns under a main heading.\<newline>''
    @ ''\<newline>''
    @ ''### **Output Format (CRITICAL)**\<newline>''
    @ ''The output **MUST** be a single Markdown code block formatted for `markmap`. Follow this structure precisely:\<newline>''
    @ ''* **Root Node (`#`):** The main topic of the video, using the `{video_topic}` variable.\<newline>''
    @ ''* **Main Branches (`-`):** The primary themes or sections identified from the transcript.\<newline>''
    @ ''* **Sub-branches (indented `-`):** Supporting details, facts, figures, and examples. Use two spaces for each level of indentation.\<newline>''
    @ ''\<newline>''
    @ ''-----\<newline>''
    @ ''### **User Input Variables**\<newline>''
    @ ''\<newline>''
    @ ''*   `{video_topic}`: ''),
    Field [''topic''],
    Text (''\<newline>''
    @ ''*   `{youtube_transcript}`: ''),
    Field [''transcript''],
    Text ''\<newline>'']"

definition generation_error_message :: "exn \<Rightarrow> string" where
  "generation_error_message e =
     ''Error: Failed to generate mind map from the LLM. Please check your API key and try again. (Details: ''
     @ exn_str e @ '')''"

text \<open>
  The cleanup of the response (lines 70 to 76): strip, drop the first ten characters when
  the text starts with the opening fence, drop the last three when it ends with the
  closing fence, strip again.
\<close>

definition clean_markdown :: "string \<Rightarrow> string" where
  "clean_markdown response_text =
     (let markdown_text = strip response_text;
          markdown_text = (if startswith markdown_text ''```markdown''
                           then slice_from 10 markdown_text else markdown_text);
          markdown_text = (if endswith markdown_text ''```''
                           then slice_upto_neg 3 markdown_text else markdown_text)
      in strip markdown_text)"

definition generate_mind_map_markdown ::
  "generation_service \<Rightarrow> string \<Rightarrow> string \<Rightarrow> pyval \<Rightarrow> (pyval \<times> pyval) \<times> net_call list" where
  "generate_mind_map_markdown service api_key topic transcript =
     (case fstring [''api_key'' \<mapsto> PyStr api_key, ''topic'' \<mapsto> PyStr topic,
                    ''transcript'' \<mapsto> transcript] prompt_template of
        Inl e \<Rightarrow> ((PyNone, PyStr (generation_error_message e)), [])
      | Inr prompt \<Rightarrow>
          (case service api_key ''gemini-pro'' prompt of
             Inl e \<Rightarrow> ((PyNone, PyStr (generation_error_message e)),
                       [GenerateCall api_key ''gemini-pro'' prompt])
           | Inr response_text \<Rightarrow>
               ((PyStr (clean_markdown response_text), PyNone),
                [GenerateCall api_key ''gemini-pro'' prompt])))"

text \<open>
  The template of \<^verbatim>\<open>create_markmap_html\<close> (lines 87 to 117) is an f-string too. The
  braces of the style rules, of the arrow function and of the two object literals are
  doubled in the source and are literal text. The braces of the three JavaScript
  destructuring patterns are single, so these are replacement fields, each a tuple of
  Python names.
\<close>

definition html_template :: "fpart list" where
  \<open>html_template =
   [Text (''\<newline>''
    @ ''<!DOCTYPE html>\<newline>''
    @ ''<html>\<newline>''
    @ ''<head>\<newline>''
    @ ''<meta charset="UTF-8">\<newline>''
    @ ''<meta name="viewport" content="width=device-width, initial-scale=1.0">\<newline>''
    @ ''<title>Markmap: ''),
    Field [''topic''],
    Text (''</title>\<newline>''
    @ ''<style>\<newline>''
    @ ''* { margin: 0; padding: 0; }\<newline>''
    @ ''#mindmap { height: 100vh; width: 100vw; }\<newline>''
    @ ''</style>\<newline>''
    @ ''<script src="https://cdn.jsdelivr.net/npm/d3@7"></script>\<newline>''
    @ ''<script src="https://cdn.jsdelivr.net/npm/markmap-lib"></script>\<newline>''
    @ ''<script src="https://cdn.jsdelivr.net/npm/markmap-view"></script>\<newline>''
    @ ''</head>\<newline>''
    @ ''<body>\<newline>''
    @ ''<svg id="mindmap"></svg>\<newline>''
    @ ''<script>\<newline>''
    @ ''((markmap) => {\<newline>''
    @ ''  const ''),
    Field [''Transformer'', ''Markmap'', ''loadCSS'', ''loadJS''],
    Text ('' = markmap;\<newline>''
    @ ''  const transformer = new Transformer();\<newline>''
    @ ''  const ''),
    Field [''root'', ''features''],
    Text '' = transformer.transform('',
    Field [''escaped_markdown''],
    Text ('');\<newline>''
    @ ''  const ''),
    Field [''styles'', ''scripts''],
    Text ('' = transformer.getUsedAssets(features);\<newline>''
    @ ''  if (styles) loadCSS(styles);\<newline>''
    @ ''  if (scripts) loadJS(scripts, { getMarkmap: () => markmap });\<newline>''
    @ ''  Markmap.create('#mindmap', undefined, root);\<newline>''
    @ ''})({...window.markmap});\<newline>''
    @ ''</script>\<newline>''
    @ ''</body>\<newline>''
    @ ''</html>\<newline>'')]\<close>

text \<open>
  The names bound where the template is evaluated are the three local variables, the
  module's imports and functions, and the builtins. No field names an import, a function
  of the module or a builtin, so the local variables decide every lookup.
\<close>

definition create_markmap_html :: "string \<Rightarrow> pyval \<Rightarrow> exn + string" where
  "create_markmap_html topic markdown_content =
     (let escaped_markdown = json_dumps markdown_content
      in fstring [''topic'' \<mapsto> PyStr topic, ''markdown_content'' \<mapsto> markdown_content,
                  ''escaped_markdown'' \<mapsto> PyStr escaped_markdown] html_template)"

section \<open>The Generate action of \<^verbatim>\<open>main\<close>\<close>

text \<open>The expression of line 179.\<close>

definition safe_filename :: "string \<Rightarrow> string" where
  "safe_filename video_topic = lower (re_sub_runs video_topic) @ ''.html''"

text \<open>
  What a run shows, in order, the network calls it makes, and the exception that ends it
  when one is not caught. The three pictographs of the messages lie outside the modelled
  code points; they are only displayed, and are written as the UTF-8 bytes of the source.
\<close>

datatype ui_event =
    St_spinner string
  | St_error string
  | St_success string
  | St_header string
  | St_subheader string
  | St_code pyval string
  | St_download_button string string string string

record run =
  shown :: "ui_event list"
  network :: "net_call list"
  uncaught :: "exn option"

definition cross_mark :: string where
  "cross_mark = [CHR 0xE2, CHR 0x9D, CHR 0x8C]"

definition check_mark :: string where
  "check_mark = [CHR 0xE2, CHR 0x9C, CHR 0x85]"

definition down_arrow :: string where
  "down_arrow = [CHR 0xE2, CHR 0xAC, CHR 0x87, CHR 0xEF, CHR 0xB8, CHR 0x8F]"

definition missing_key_message :: string where
  "missing_key_message = cross_mark @ '' Please enter your Google AI API Key in the sidebar.''"

definition missing_topic_message :: string where
  "missing_topic_message = cross_mark @ '' Please provide a video topic.''"

definition missing_url_message :: string where
  "missing_url_message = cross_mark @ '' Please provide a YouTube URL.''"

text \<open>
  The third step of the pipeline (lines 176 to 192). The call of \<^verbatim>\<open>create_markmap_html\<close>
  is not inside a \<^verbatim>\<open>try\<close>: an exception it raises ends the run.
\<close>

definition step3 :: "string \<Rightarrow> pyval \<Rightarrow> ui_event list \<Rightarrow> net_call list \<Rightarrow> run" where
  "step3 video_topic markdown_output evs calls =
     (case create_markmap_html video_topic markdown_output of
        Inl e \<Rightarrow>
          \<lparr>shown = evs @ [St_spinner ''Step 3/3: Creating downloadable HTML file...''],
           network = calls, uncaught = Some e\<rparr>
      | Inr html_content \<Rightarrow>
          \<lparr>shown = evs @
             [St_spinner ''Step 3/3: Creating downloadable HTML file...'',
              St_success (check_mark @ '' HTML file ready for download!''),
              St_header ''2. Review and Download'',
              St_subheader ''Generated Markmap Markdown'',
              St_code markdown_output ''markdown'',
              St_download_button (down_arrow @ '' Download Interactive Mind Map (HTML)'')
                html_content (safe_filename video_topic) ''text/html''],
           network = calls, uncaught = None\<rparr>)"

text \<open>The second step (lines 165 to 173), followed by the third.\<close>

definition step2 ::
  "generation_service \<Rightarrow> string \<Rightarrow> string \<Rightarrow> pyval \<Rightarrow> ui_event list \<Rightarrow> net_call list \<Rightarrow> run" where
  "step2 generation api_key video_topic transcript evs calls =
     (case generate_mind_map_markdown generation api_key video_topic transcript of
        ((markdown_output, error), calls2) \<Rightarrow>
          (let evs2 = evs @ [St_spinner ''Step 2/3: Analyzing transcript with AI to generate mind map... (This may take a moment)'']
           in if truthy error
              then \<lparr>shown = evs2 @ [St_error (py_str error)],
                    network = calls @ calls2, uncaught = None\<rparr>
              else step3 video_topic markdown_output
                     (evs2 @ [St_success (check_mark @ '' Mind map generated successfully!'')])
                     (calls @ calls2)))"

text \<open>
  The body of \<^verbatim>\<open>if st.button("Generate Mind Map")\<close> (lines 147 to 192), for the values
  of the three text inputs. Drawing the page and its widgets is not modelled.
\<close>

definition main ::
  "transcript_service \<Rightarrow> generation_service \<Rightarrow> string \<Rightarrow> string \<Rightarrow> string \<Rightarrow> run" where
  "main transcripts generation api_key video_topic youtube_url =
     (if \<not> truthy (PyStr api_key)
        then \<lparr>shown = [St_error missing_key_message], network = [], uncaught = None\<rparr>
      else if \<not> truthy (PyStr video_topic)
        then \<lparr>shown = [St_error missing_topic_message], network = [], uncaught = None\<rparr>
      else if \<not> truthy (PyStr youtube_url)
        then \<lparr>shown = [St_error missing_url_message], network = [], uncaught = None\<rparr>
      else
        (case get_youtube_transcript transcripts youtube_url of
           ((transcript, error), calls1) \<Rightarrow>
             (let evs1 = [St_spinner ''Step 1/3: Extracting transcript from YouTube...'']
              in if truthy error
                 then \<lparr>shown = evs1 @ [St_error (py_str error)],
                       network = calls1, uncaught = None\<rparr>
                 else step2 generation api_key video_topic transcript
                        (evs1 @ [St_success (check_mark @ '' Transcript extracted successfully!'')])
                        calls1)))"

section \<open>Predicates of the statements\<close>

text \<open>The pattern \<^verbatim>\<open>^[a-z0-9_]+\.html$\<close> on a name that does not end with a line break.\<close>

definition name_char :: "char \<Rightarrow> bool" where
  "name_char c = ((97 \<le> codepoint c \<and> codepoint c \<le> 122) \<or> (48 \<le> codepoint c \<and> codepoint c \<le> 57)
                  \<or> c = CHR ''_'')"

definition matches_name_pattern :: "string \<Rightarrow> bool" where
  "matches_name_pattern f =
     (endswith f ''.html'' \<and> slice_upto_neg 5 f \<noteq> [] \<and> list_all name_char (slice_upto_neg 5 f))"

definition is_ascii :: "char \<Rightarrow> bool" where
  "is_ascii c = (codepoint c < 128)"

text \<open>A URL carries the identifier pattern when some position of it other than the end
  is preceded by \<^verbatim>\<open>v=\<close> or \<^verbatim>\<open>be/\<close> and holds a character other than \<^verbatim>\<open>&\<close> and \<^verbatim>\<open>#\<close>.\<close>

definition carries_pattern :: "string \<Rightarrow> bool" where
  "carries_pattern url =
     list_ex (\<lambda>i. lookbehind (take i url) \<and> id_char (url ! i)) [0..<length url]"

section \<open>The HTML builder\<close>

text \<open>
  Claim C2 says that \<^verbatim>\<open>create_markmap_html\<close> returns an HTML document for every topic
  and every Markdown string and never raises. The code does the opposite: the second
  replacement field of its template is the tuple \<^verbatim>\<open>Transformer, Markmap, loadCSS, loadJS\<close>,
  whose first name is bound nowhere, so every call raises \<^verbatim>\<open>NameError\<close> and none returns.
\<close>

theorem create_markmap_html_raises:
  "create_markmap_html topic markdown_content = Inl (NameError ''Transformer'')"
  by (simp add: create_markmap_html_def html_template_def eval_field_def)

text \<open>
  Claim C3 says that the returned HTML contains the JSON serialisation of the Markdown and
  that the embedded literal holds no unescaped \<^verbatim>\<open></script>\<close>. At the Markdown
  \<^verbatim>\<open></script>\<close> the serialisation computed on line 85 is the same text between two
  quotes, with nothing escaped, and the call returns no HTML at all.
\<close>

theorem script_close_not_escaped:
  "json_dumps (PyStr ''</script>'') = [CHR 0x22] @ ''</script>'' @ [CHR 0x22]
   \<and> create_markmap_html ''Test Topic'' (PyStr ''</script>'') = Inl (NameError ''Transformer'')"
  by (simp add: json_escape_def codepoint_def create_markmap_html_def html_template_def
      eval_field_def)

section \<open>Validation of the inputs\<close>

text \<open>
  Claim C9: when the Generate action runs with the credential, the topic or the URL empty,
  the run shows one error message and stops without any network call. The message is the
  one of the first empty input in the order credential, topic, URL, and the three
  messages differ from each other.
\<close>

theorem missing_input_aborts:
  assumes "api_key = [] \<or> video_topic = [] \<or> youtube_url = []"
  shows "network (main transcripts generation api_key video_topic youtube_url) = []
       \<and> uncaught (main transcripts generation api_key video_topic youtube_url) = None
       \<and> shown (main transcripts generation api_key video_topic youtube_url) =
           [St_error (if api_key = [] then missing_key_message
                      else if video_topic = [] then missing_topic_message
                      else missing_url_message)]
       \<and> distinct [missing_key_message, missing_topic_message, missing_url_message]"
  using assms
  by (auto simp: main_def missing_key_message_def missing_topic_message_def
      missing_url_message_def)

text \<open>The credential empty and the other two inputs filled.\<close>

theorem missing_input_aborts_witness:
  "network (main (\<lambda>v. Inr []) (\<lambda>k m p. Inr []) [] ''Test Topic''
              ''https://www.youtube.com/watch?v=abc123'') = []
   \<and> shown (main (\<lambda>v. Inr []) (\<lambda>k m p. Inr []) [] ''Test Topic''
              ''https://www.youtube.com/watch?v=abc123'') = [St_error missing_key_message]"
  using missing_input_aborts [of "[]" "''Test Topic''" "''https://www.youtube.com/watch?v=abc123''"
      "\<lambda>v. Inr []" "\<lambda>k m p. Inr []"]
  by simp

section \<open>The end-to-end scenario\<close>

text \<open>
  Claim C1 describes a run with the topic \<^verbatim>\<open>Test Topic\<close>, a \<^verbatim>\<open>watch?v=abc123\<close> URL, a
  transcript service that returns the fragments Hello and World and a generation service
  that returns a fenced block, and says it ends with the Markdown of the block and a
  file \<^verbatim>\<open>test_topic.html\<close>. In the code the transcript is \<^verbatim>\<open>Hello World\<close>, the cleaned
  Markdown keeps the last letter of the opening fence (line 72 cuts ten characters of
  eleven), and after the second success message the run ends in step 3 with the
  \<^verbatim>\<open>NameError\<close> of the template: no Markdown and no download are shown.
\<close>

theorem end_to_end_scenario:
  "uncaught (main (\<lambda>video_id. Inr [[''text'' \<mapsto> ''Hello''], [''text'' \<mapsto> ''World'']])
        (\<lambda>api_key model prompt.
           Inr ''```markdown\<newline># Test Topic\<newline>- A\<newline>  - B\<newline>```'')
        ''KEY'' ''Test Topic'' ''https://www.youtube.com/watch?v=abc123'')
   = Some (NameError ''Transformer'')
  \<and> shown (main (\<lambda>video_id. Inr [[''text'' \<mapsto> ''Hello''], [''text'' \<mapsto> ''World'']])
        (\<lambda>api_key model prompt.
           Inr ''```markdown\<newline># Test Topic\<newline>- A\<newline>  - B\<newline>```'')
        ''KEY'' ''Test Topic'' ''https://www.youtube.com/watch?v=abc123'')
   = [St_spinner ''Step 1/3: Extracting transcript from YouTube...'',
      St_success (check_mark @ '' Transcript extracted successfully!''),
      St_spinner ''Step 2/3: Analyzing transcript with AI to generate mind map... (This may take a moment)'',
      St_success (check_mark @ '' Mind map generated successfully!''),
      St_spinner ''Step 3/3: Creating downloadable HTML file...'']
  \<and> fst (get_youtube_transcript
        (\<lambda>video_id. Inr [[''text'' \<mapsto> ''Hello''], [''text'' \<mapsto> ''World'']])
        ''https://www.youtube.com/watch?v=abc123'')
   = (PyStr ''Hello World'', PyNone)
  \<and> fst (generate_mind_map_markdown
        (\<lambda>api_key model prompt.
           Inr ''```markdown\<newline># Test Topic\<newline>- A\<newline>  - B\<newline>```'')
        ''KEY'' ''Test Topic'' (PyStr ''Hello World''))
   = (PyStr ''n\<newline># Test Topic\<newline>- A\<newline>  - B'', PyNone)"
  by (simp add: main_def get_youtube_transcript_def re_search_video_id_def lookbehind_def
      endswith_def id_char_def step2_def generate_mind_map_markdown_def prompt_template_def
      eval_field_def step3_def create_markmap_html_def html_template_def clean_markdown_def
      strip_def startswith_def slice_from_def slice_upto_neg_def isspace_def codepoint_def)

section \<open>The cleanup of the response\<close>

lemma rstrip_keeps_head:
  assumes "dropWhile P a = a"
  shows "dropWhile P (rev (dropWhile P (rev a))) = rev (dropWhile P (rev a))"
proof (cases "dropWhile P (rev a) = []")
  case True
  show ?thesis unfolding True by simp
next
  case False
  let ?b = "rev (dropWhile P (rev a))"
  have "rev a = rev (?b @ rev (takeWhile P (rev a)))" by simp
  then have a: "a = ?b @ rev (takeWhile P (rev a))" by (simp only: rev_is_rev_conv)
  from False have b: "?b \<noteq> []" by simp
  from a b have "hd a = hd ?b" by (metis hd_append2)
  moreover from a b have "a \<noteq> []" by auto
  with assms have "\<not> P (hd a)" by (simp add: dropWhile_eq_self_iff)
  ultimately show ?thesis by (simp add: dropWhile_eq_self_iff)
qed

lemma strip_idem: "strip (strip s) = strip s"
proof -
  have "dropWhile isspace (strip s) = strip s"
    unfolding strip_def by (rule rstrip_keeps_head) simp
  then show ?thesis by (simp add: strip_def)
qed

lemma clean_markdown_stripped: "strip (clean_markdown s) = clean_markdown s"
  by (simp add: clean_markdown_def Let_def strip_idem)

lemma clean_markdown_fixed:
  assumes "strip t = t" and "\<not> startswith t ''```markdown''" and "\<not> endswith t ''```''"
  shows "clean_markdown t = t"
  using assms by (simp add: clean_markdown_def Let_def)

text \<open>
  Claim C4 says that the cleanup is idempotent on every string it returns. It is not:
  six backquotes are cleaned to three, which still end with the closing fence, and
  cleaning those gives the empty string.
\<close>

theorem cleanup_not_idempotent:
  "clean_markdown ''``````'' = ''```'' \<and> clean_markdown (clean_markdown ''``````'') = []"
  by (simp add: clean_markdown_def strip_def startswith_def endswith_def slice_from_def
      slice_upto_neg_def isspace_def codepoint_def)

text \<open>
  Claim C4, amended: when the string returned by the cleanup neither starts with the
  opening fence \<^verbatim>\<open>```markdown\<close> nor ends with the closing fence \<^verbatim>\<open>```\<close>, cleaning it again
  returns it unchanged.
\<close>

theorem cleanup_idempotent_without_fence:
  assumes "\<not> startswith (clean_markdown s) ''```markdown''"
      and "\<not> endswith (clean_markdown s) ''```''"
  shows "clean_markdown (clean_markdown s) = clean_markdown s"
  using clean_markdown_stripped assms by (rule clean_markdown_fixed)

theorem cleanup_idempotent_without_fence_witness:
  "\<not> startswith (clean_markdown ''  # T\<newline>- A  '') ''```markdown''
   \<and> \<not> endswith (clean_markdown ''  # T\<newline>- A  '') ''```''
   \<and> clean_markdown ''  # T\<newline>- A  '' = ''# T\<newline>- A''
   \<and> clean_markdown (clean_markdown ''  # T\<newline>- A  '') = clean_markdown ''  # T\<newline>- A  ''"
proof -
  have v: "clean_markdown ''  # T\<newline>- A  '' = ''# T\<newline>- A''"
    by (simp add: clean_markdown_def strip_def startswith_def endswith_def slice_from_def
        slice_upto_neg_def isspace_def codepoint_def)
  have a: "\<not> startswith (clean_markdown ''  # T\<newline>- A  '') ''```markdown''"
    unfolding v by (simp add: startswith_def)
  have b: "\<not> endswith (clean_markdown ''  # T\<newline>- A  '') ''```''"
    unfolding v by (simp add: endswith_def)
  from a b v cleanup_idempotent_without_fence [OF a b] show ?thesis by simp
qed

section \<open>The file name\<close>

lemma re_sub_runs_chars:
  "c \<in> set (re_sub_runs s) \<Longrightarrow> c = CHR ''_'' \<or> (c \<in> set s \<and> isalnum c)"
proof (induction s rule: re_sub_runs.induct)
  case 1
  then show ?case by simp
next
  case (2 d ds)
  show ?case
  proof (cases "in_class d")
    case True
    with 2 show ?thesis by (auto dest: set_dropWhileD)
  next
    case False
    then have "isalnum d" by (auto simp: in_class_def is_word_def split: if_splits)
    with False 2 show ?thesis by auto
  qed
qed

lemma re_sub_runs_nonempty: "s \<noteq> [] \<Longrightarrow> re_sub_runs s \<noteq> []"
  by (cases s) auto

lemma name_char_lower_alnum:
  assumes "isalnum c" and "is_ascii c"
  shows "name_char (lower_char c)"
  using assms
  by (auto simp: isalnum_def is_ascii_def name_char_def lower_char_def codepoint_def)

lemma name_char_lower_underscore: "name_char (lower_char CHR ''_'')"
  by (simp add: name_char_def lower_char_def codepoint_def)

lemma matches_name_pattern_html:
  "matches_name_pattern (b @ ''.html'') = (b \<noteq> [] \<and> list_all name_char b)"
  by (simp add: matches_name_pattern_def endswith_def slice_upto_neg_def)

text \<open>
  Claim C5 says that every topic gives a file name matching \<^verbatim>\<open>^[a-z0-9_]+\.html$\<close> and
  that \<^verbatim>\<open>Preamble: Part I\<close> gives \<^verbatim>\<open>preamble_part_i_.html\<close>. The expression of line 179
  gives \<^verbatim>\<open>preamble_part_i.html\<close> for that topic: only the runs that occur are replaced, and
  none follows the last letter. A letter outside ASCII is a word character and is kept
  (the topic of the one letter U+00E9 gives that letter and \<^verbatim>\<open>.html\<close>), and the empty
  topic gives \<^verbatim>\<open>.html\<close>; neither name matches the pattern.
\<close>

theorem file_name_counterexample:
  "safe_filename ''Preamble: Part I'' = ''preamble_part_i.html''
   \<and> safe_filename ''Preamble: Part I'' \<noteq> ''preamble_part_i_.html''
   \<and> \<not> matches_name_pattern (safe_filename [CHR 0xE9])
   \<and> \<not> matches_name_pattern (safe_filename [])"
  by (simp add: safe_filename_def lower_def lower_char_def in_class_def is_word_def
      isalnum_def codepoint_def char_of_def bit_0 matches_name_pattern_def endswith_def
      slice_upto_neg_def name_char_def)

text \<open>
  Claim C5, amended: for every topic that is not empty and whose alphanumeric characters
  are all ASCII, the file name (every run of non-alphanumeric characters replaced by one
  underscore, lower-cased, \<^verbatim>\<open>.html\<close> appended) matches \<^verbatim>\<open>^[a-z0-9_]+\.html$\<close>; the topic
  \<^verbatim>\<open>Preamble: Part I\<close> gives \<^verbatim>\<open>preamble_part_i.html\<close>.
\<close>

theorem file_name_matches_pattern:
  assumes "video_topic \<noteq> []"
      and "list_all is_ascii (filter isalnum video_topic)"
  shows "matches_name_pattern (safe_filename video_topic)
       \<and> safe_filename ''Preamble: Part I'' = ''preamble_part_i.html''"
proof -
  have "name_char (lower_char c)" if "c \<in> set (re_sub_runs video_topic)" for c
    using re_sub_runs_chars [OF that] assms(2)
    by (auto simp: list_all_iff name_char_lower_alnum name_char_lower_underscore)
  then have "list_all name_char (lower (re_sub_runs video_topic))"
    by (simp add: lower_def list_all_iff)
  moreover have "lower (re_sub_runs video_topic) \<noteq> []"
    using assms(1) by (simp add: lower_def re_sub_runs_nonempty)
  ultimately have "matches_name_pattern (safe_filename video_topic)"
    by (simp add: safe_filename_def matches_name_pattern_html)
  moreover have "safe_filename ''Preamble: Part I'' = ''preamble_part_i.html''"
    by (simp add: safe_filename_def lower_def lower_char_def in_class_def is_word_def
        isalnum_def codepoint_def char_of_def bit_0)
  ultimately show ?thesis by simp
qed

theorem file_name_matches_pattern_witness:
  "''Test Topic'' \<noteq> [] \<and> list_all is_ascii (filter isalnum ''Test Topic'')
   \<and> matches_name_pattern (safe_filename ''Test Topic'')
   \<and> safe_filename ''Test Topic'' = ''test_topic.html''"
proof -
  have a: "list_all is_ascii (filter isalnum ''Test Topic'')"
    by (simp add: is_ascii_def isalnum_def codepoint_def)
  have v: "safe_filename ''Test Topic'' = ''test_topic.html''"
    by (simp add: safe_filename_def lower_def lower_char_def in_class_def is_word_def
        isalnum_def codepoint_def char_of_def bit_0)
  from a v file_name_matches_pattern [of "''Test Topic''"] show ?thesis by simp
qed

section \<open>The video identifier\<close>

lemma re_search_from_skip:
  assumes "\<forall>i<length u. \<not> (lookbehind (seen @ take i u) \<and> id_char (u ! i))"
  shows "re_search_from seen (u @ rest) = re_search_from (seen @ u) rest"
  using assms
proof (induction u arbitrary: seen)
  case Nil
  then show ?case by simp
next
  case (Cons c u)
  from Cons.prems have "\<not> (lookbehind seen \<and> id_char c)" by fastforce
  moreover have "\<forall>i<length u. \<not> (lookbehind ((seen @ [c]) @ take i u) \<and> id_char (u ! i))"
  proof (intro allI impI)
    fix i assume "i < length u"
    then have "Suc i < length (c # u)" by simp
    with Cons.prems
    have "\<not> (lookbehind (seen @ take (Suc i) (c # u)) \<and> id_char ((c # u) ! Suc i))"
      by blast
    then show "\<not> (lookbehind ((seen @ [c]) @ take i u) \<and> id_char (u ! i))" by simp
  qed
  ultimately show ?case using Cons.IH [of "seen @ [c]"] by auto
qed

lemma re_search_from_None:
  "(re_search_from seen u = None) =
     (\<forall>i<length u. \<not> (lookbehind (seen @ take i u) \<and> id_char (u ! i)))"
proof (induction u arbitrary: seen)
  case Nil
  then show ?case by simp
next
  case (Cons c u)
  show ?case
  proof (cases "lookbehind seen \<and> id_char c")
    case True
    then show ?thesis by fastforce
  next
    case False
    have "(\<forall>i<length (c # u). \<not> (lookbehind (seen @ take i (c # u)) \<and> id_char ((c # u) ! i)))
        = (\<forall>i<length u. \<not> (lookbehind ((seen @ [c]) @ take i u) \<and> id_char (u ! i)))"
      using False by (auto simp: less_Suc_eq_0_disj)
    with False Cons.IH [of "seen @ [c]"] show ?thesis by auto
  qed
qed

lemma carries_pattern_iff:
  "carries_pattern url = (\<exists>i<length url. lookbehind (take i url) \<and> id_char (url ! i))"
  by (auto simp: carries_pattern_def list_ex_iff)

lemma carries_pattern_search: "carries_pattern url = (re_search_video_id url \<noteq> None)"
  using re_search_from_None [of "[]" url]
  by (simp add: re_search_video_id_def carries_pattern_iff)

text \<open>
  Claim C6 says that every URL that ends with \<^verbatim>\<open>/watch?v=ID\<close> or with \<^verbatim>\<open>be/ID\<close>, for an
  alphanumeric \<open>ID\<close>, gives exactly \<open>ID\<close>. The search takes the leftmost position
  that matches, which need not be the one in front of \<open>ID\<close>: in the short-link host
  form of a watch URL the text after \<^verbatim>\<open>be/\<close> is found first.
\<close>

theorem video_id_counterexample:
  "re_search_video_id ''https://youtu.be/watch?v=abc123'' = Some ''watch?v=abc123''
   \<and> re_search_video_id ''https://youtu.be/watch?v=abc123'' \<noteq> Some ''abc123''"
  by (simp add: re_search_video_id_def lookbehind_def endswith_def id_char_def)

text \<open>
  Claim C6, amended: for every URL that consists of a prefix, the marker \<^verbatim>\<open>/watch?v=\<close> or
  \<^verbatim>\<open>be/\<close>, and a non-empty alphanumeric \<open>ID\<close>, the extraction returns exactly \<open>ID\<close>,
  and the transcript service is asked for \<open>ID\<close>, provided the pattern matches at no
  earlier position, that is, no \<^verbatim>\<open>v=\<close> or \<^verbatim>\<open>be/\<close> that occurs before the end of the
  marker is directly followed by a character other than \<^verbatim>\<open>&\<close> and \<^verbatim>\<open>#\<close>.
\<close>

theorem video_id_extracted:
  assumes "video_id \<noteq> []" and "list_all isalnum video_id"
      and "marker = ''/watch?v='' \<or> marker = ''be/''"
      and "\<not> carries_pattern (pre @ marker)"
  shows "re_search_video_id (pre @ marker @ video_id) = Some video_id
       \<and> snd (get_youtube_transcript transcripts (pre @ marker @ video_id))
           = [TranscriptCall video_id]"
proof -
  from assms(4) have "\<forall>i<length (pre @ marker).
      \<not> (lookbehind ([] @ take i (pre @ marker)) \<and> id_char ((pre @ marker) ! i))"
    by (simp add: carries_pattern_iff)
  then have "re_search_from [] ((pre @ marker) @ video_id)
           = re_search_from ([] @ pre @ marker) video_id"
    by (rule re_search_from_skip)
  moreover from assms(1) obtain c cs where "video_id = c # cs" by (cases video_id) auto
  moreover have "\<forall>x \<in> set video_id. id_char x"
    using assms(2) by (auto simp: list_all_iff id_char_def isalnum_def codepoint_def)
  moreover have "lookbehind (pre @ marker)"
    using assms(3) by (auto simp: lookbehind_def endswith_def)
  ultimately have found: "re_search_video_id (pre @ marker @ video_id) = Some video_id"
    by (simp add: re_search_video_id_def)
  then show ?thesis
    by (simp add: get_youtube_transcript_def split: sum.split)
qed

theorem video_id_extracted_witness:
  "re_search_video_id ''https://www.youtube.com/watch?v=abc123'' = Some ''abc123''
   \<and> re_search_video_id ''https://youtu.be/abc123'' = Some ''abc123''
   \<and> \<not> carries_pattern ''https://www.youtube.com/watch?v=''
   \<and> \<not> carries_pattern ''https://youtu.be/''"
proof -
  have a: "list_all isalnum ''abc123''"
    by (simp add: isalnum_def codepoint_def)
  have b: "\<not> carries_pattern (''https://www.youtube.com'' @ ''/watch?v='')"
    by (simp add: carries_pattern_search re_search_video_id_def lookbehind_def endswith_def
        id_char_def)
  have c: "\<not> carries_pattern (''https://youtu.'' @ ''be/'')"
    by (simp add: carries_pattern_search re_search_video_id_def lookbehind_def endswith_def
        id_char_def)
  from a b c
    video_id_extracted [of "''abc123''" "''/watch?v=''" "''https://www.youtube.com''" "\<lambda>v. Inr []"]
    video_id_extracted [of "''abc123''" "''be/''" "''https://youtu.''" "\<lambda>v. Inr []"]
  show ?thesis by simp
qed

text \<open>
  Claim C7: for a URL that the identifier pattern matches nowhere,
  \<^verbatim>\<open>get_youtube_transcript\<close> returns \<^verbatim>\<open>None\<close> with the message that no video identifier
  could be extracted, and the transcript service is not called.
\<close>

theorem invalid_url_no_call:
  assumes "\<not> carries_pattern youtube_url"
  shows "get_youtube_transcript transcripts youtube_url
           = ((PyNone, PyStr invalid_url_message), [])"
  using assms by (simp add: get_youtube_transcript_def carries_pattern_search)

theorem invalid_url_no_call_witness:
  "\<not> carries_pattern ''https://www.youtube.com/watch?v=''
   \<and> get_youtube_transcript (\<lambda>v. Inr []) ''https://www.youtube.com/watch?v=''
       = ((PyNone, PyStr invalid_url_message), [])
   \<and> get_youtube_transcript (\<lambda>v. Inr []) ''https://example.com/video''
       = ((PyNone, PyStr invalid_url_message), [])"
proof -
  have a: "\<not> carries_pattern ''https://www.youtube.com/watch?v=''"
    by (simp add: carries_pattern_search re_search_video_id_def lookbehind_def endswith_def
        id_char_def)
  have b: "\<not> carries_pattern ''https://example.com/video''"
    by (simp add: carries_pattern_search re_search_video_id_def lookbehind_def endswith_def
        id_char_def)
  from a invalid_url_no_call [OF a, of "\<lambda>v. Inr []"] invalid_url_no_call [OF b, of "\<lambda>v. Inr []"]
  show ?thesis by simp
qed

section \<open>The transcript text\<close>


lemma join_append:
  "xs \<noteq> [] \<Longrightarrow> ys \<noteq> [] \<Longrightarrow> join sep (xs @ ys) = join sep xs @ sep @ join sep ys"
  by (induction sep xs rule: join.induct) (auto simp: neq_Nil_conv)



section \<open>The result pairs\<close>








end
